theory Spec2Isabelle
  imports Complex_Main "HOL-Library.AList" "HOL-Library.Log_Nat" "HOL-Library.Multiset"
begin

section \<open>Python values, strings and dictionaries\<close>

text \<open>
  The records that flow through the pipeline are Python dictionaries decoded from JSON.
  A dictionary is an association list (Python dictionaries keep insertion order); a
  value is one of the JSON shapes.  A string is a list of 8-bit characters, read as code
  points below 256; \<open>str_upper\<close> and \<open>str_lower\<close> are \<open>str.upper\<close> and \<open>str.lower\<close> on
  ASCII strings, where they act on the letters a-z and A-Z.  The case of letters outside
  ASCII is treated apart, for the country of a request.
\<close>

datatype pyval =
    PNone
  | PBool bool
  | PNum rat
  | PStr string
  | PList "pyval list"
  | PDict "(string \<times> pyval) list"

type_synonym pydict = "(string \<times> pyval) list"

datatype py_error =
    ValueError
  | AttributeError
  | TypeError
  | OtherError string
  | HTTPException nat py_error

definition upper_char :: "char \<Rightarrow> char" where
  "upper_char c =
     (let n = (of_char c :: nat) in if 97 \<le> n \<and> n \<le> 122 then char_of (n - 32) else c)"

definition lower_char :: "char \<Rightarrow> char" where
  "lower_char c =
     (let n = (of_char c :: nat) in if 65 \<le> n \<and> n \<le> 90 then char_of (n + 32) else c)"

definition str_upper :: "string \<Rightarrow> string" where
  "str_upper s = map upper_char s"

definition str_lower :: "string \<Rightarrow> string" where
  "str_lower s = map lower_char s"

text \<open>\<open>d.get(k, default)\<close>, \<open>d[k] = v\<close> and Python's truth value of an object.\<close>

definition dict_get :: "pydict \<Rightarrow> string \<Rightarrow> pyval \<Rightarrow> pyval" where
  "dict_get d k dflt = (case map_of d k of None \<Rightarrow> dflt | Some v \<Rightarrow> v)"

definition dict_set :: "pydict \<Rightarrow> string \<Rightarrow> pyval \<Rightarrow> pydict" where
  "dict_set d k v = AList.update k v d"

fun truthy :: "pyval \<Rightarrow> bool" where
  "truthy PNone = False"
| "truthy (PBool b) = b"
| "truthy (PNum q) = (q \<noteq> 0)"
| "truthy (PStr s) = (s \<noteq> [])"
| "truthy (PList xs) = (xs \<noteq> [])"
| "truthy (PDict kvs) = (kvs \<noteq> [])"

section \<open>The scraper manager (src/scraper/scraper_manager.py)\<close>

text \<open>
  An adapter has a name, its \<open>supported_countries\<close> and an asynchronous \<open>search\<close>.
  Awaiting a search either raises or returns an object, which is a list of records or
  something else.  The manager's \<open>scrapers\<close> dictionary is given by its values in
  iteration order.
\<close>

datatype task_outcome =
    Raises py_error
  | ReturnsList "pydict list"
  | ReturnsOther pyval

record scraper =
  name :: string
  supported_countries :: "string list"
  search :: "string \<Rightarrow> string \<Rightarrow> task_outcome"

text \<open>
  \<open>asyncio.gather(*tasks, return_exceptions=flag)\<close>: with the flag set every outcome,
  an exception included, is an element of the result list; without it the first
  exception propagates.
\<close>

fun first_raised :: "task_outcome list \<Rightarrow> py_error option" where
  "first_raised [] = None"
| "first_raised (Raises e # ts) = Some e"
| "first_raised (t # ts) = first_raised ts"

definition gather :: "bool \<Rightarrow> task_outcome list \<Rightarrow> py_error + task_outcome list" where
  "gather return_exceptions tasks =
     (if return_exceptions then Inr tasks
      else (case first_raised tasks of Some e \<Rightarrow> Inl e | None \<Rightarrow> Inr tasks))"

definition lists_country :: "scraper \<Rightarrow> string \<Rightarrow> bool" where
  "lists_country s country = (str_upper country \<in> set (map str_upper (supported_countries s)))"

definition get_relevant_scrapers :: "scraper list \<Rightarrow> string \<Rightarrow> scraper list" where
  "get_relevant_scrapers scrapers country = filter (\<lambda>s. lists_country s country) scrapers"

text \<open>Lines 72-78 of \<open>ScraperManager.search_products\<close>: the adapters that are dispatched.\<close>

definition select_scrapers :: "scraper list \<Rightarrow> string \<Rightarrow> scraper list" where
  "select_scrapers scrapers country =
     (case get_relevant_scrapers scrapers country of
        [] \<Rightarrow> filter (\<lambda>s. ''ALL'' \<in> set (supported_countries s)) scrapers
      | r # rs \<Rightarrow> r # rs)"

text \<open>The loop over the gathered results, with its accumulator \<open>processed_results\<close>.\<close>

fun process_results :: "task_outcome list \<Rightarrow> pydict list \<Rightarrow> pydict list" where
  "process_results [] processed = processed"
| "process_results (Raises e # rs) processed = process_results rs processed"
| "process_results (ReturnsList xs # rs) processed = process_results rs (processed @ xs)"
| "process_results (ReturnsOther v # rs) processed = process_results rs processed"

definition ScraperManager_search_products ::
    "scraper list \<Rightarrow> string \<Rightarrow> string \<Rightarrow> py_error + pydict list" where
  "ScraperManager_search_products scrapers country query =
     (case select_scrapers scrapers country of
        [] \<Rightarrow> Inr []
      | r # rs \<Rightarrow>
          (let tasks = map (\<lambda>s. search s country query) (r # rs) in
           case gather True tasks of
             Inl e \<Rightarrow> Inl e
           | Inr results \<Rightarrow> Inr (process_results results [])))"

text \<open>What one adapter contributes when its search succeeds with a list.\<close>

definition successful_results :: "string \<Rightarrow> string \<Rightarrow> scraper \<Rightarrow> pydict list" where
  "successful_results country query s =
     (case search s country query of ReturnsList xs \<Rightarrow> xs | _ \<Rightarrow> [])"

subsection \<open>The adapters of the repository, by their class attributes\<close>

definition AmazonScraper :: "(string \<Rightarrow> string \<Rightarrow> task_outcome) \<Rightarrow> scraper" where
  "AmazonScraper f = \<lparr> name = ''amazon'',
     supported_countries =
       [''US'', ''UK'', ''DE'', ''FR'', ''ES'', ''IT'', ''JP'', ''IN'', ''CA'', ''AU'', ''ALL''],
     search = f \<rparr>"

definition FlipkartScraper :: "(string \<Rightarrow> string \<Rightarrow> task_outcome) \<Rightarrow> scraper" where
  "FlipkartScraper f = \<lparr> name = ''flipkart'', supported_countries = [''IN''], search = f \<rparr>"

definition GenericAIScraper :: "(string \<Rightarrow> string \<Rightarrow> task_outcome) \<Rightarrow> scraper" where
  "GenericAIScraper f = \<lparr> name = ''generic_ai'', supported_countries = [''ALL''], search = f \<rparr>"

definition GoogleCustomSearchScraper :: "(string \<Rightarrow> string \<Rightarrow> task_outcome) \<Rightarrow> scraper" where
  "GoogleCustomSearchScraper f =
     \<lparr> name = ''google_custom_search'', supported_countries = [''ALL''], search = f \<rparr>"

section \<open>Country gates outside the manager\<close>

text \<open>
  \<open>FlipkartScraper.search\<close> (src/scraper/sites/flipkart.py): the guard on the country
  comes first; the rest of the method builds its URL from the query alone, so it is a
  function \<open>body\<close> of the query.
\<close>

definition FlipkartScraper_search ::
    "(string \<Rightarrow> task_outcome) \<Rightarrow> string \<Rightarrow> string \<Rightarrow> task_outcome" where
  "FlipkartScraper_search body country query =
     (if str_upper country \<noteq> ''IN'' then ReturnsList [] else body query)"

text \<open>The default currency of \<open>search_products_google\<close> (src/utils/google_custom_search.py).\<close>

definition COUNTRY_CURRENCY :: "(string \<times> string) list" where
  "COUNTRY_CURRENCY =
     [(''us'', ''USD''), (''uk'', ''GBP''), (''gb'', ''GBP''), (''de'', ''EUR''),
      (''fr'', ''EUR''), (''it'', ''EUR''), (''es'', ''EUR''), (''jp'', ''JPY''),
      (''in'', ''INR''), (''ca'', ''CAD''), (''au'', ''AUD'')]"

definition default_currency :: "string \<Rightarrow> string" where
  "default_currency country =
     (let country_code = str_lower country in
      case map_of COUNTRY_CURRENCY country_code of None \<Rightarrow> ''USD'' | Some c \<Rightarrow> c)"

section \<open>Country strings beyond ASCII\<close>













section \<open>The price estimator (src/api/routes.py, estimate_price)\<close>

text \<open>
  \<open>sub in s\<close> on strings, and \<open>.lower()\<close> on an object (AttributeError unless it is a string).
\<close>

fun is_prefix :: "string \<Rightarrow> string \<Rightarrow> bool" where
  "is_prefix [] s = True"
| "is_prefix (a # as) [] = False"
| "is_prefix (a # as) (b # bs) = (a = b \<and> is_prefix as bs)"

fun str_contains :: "string \<Rightarrow> string \<Rightarrow> bool" where
  "str_contains [] sub = (sub = [])"
| "str_contains (c # cs) sub = (is_prefix sub (c # cs) \<or> str_contains cs sub)"

definition py_lower :: "pyval \<Rightarrow> py_error + string" where
  "py_lower v = (case v of PStr s \<Rightarrow> Inr (str_lower s) | _ \<Rightarrow> Inl AttributeError)"

text \<open>
  The four lines every branch of \<open>estimate_price\<close> repeats: assign the price, create
  \<open>additionalInfo\<close> when it is missing or falsy, and set the flag in it (a TypeError when
  \<open>additionalInfo\<close> is a truthy object that is not a dictionary).
\<close>

definition set_estimate :: "pydict \<Rightarrow> string \<Rightarrow> py_error + pydict" where
  "set_estimate product p =
     (let product1 = dict_set product ''price'' (PStr p);
          product2 = (if \<not> truthy (dict_get product1 ''additionalInfo'' PNone)
                      then dict_set product1 ''additionalInfo'' (PDict [])
                      else product1)
      in case dict_get product2 ''additionalInfo'' PNone of
           PDict info \<Rightarrow>
             Inr (dict_set product2 ''additionalInfo''
                    (PDict (dict_set info ''priceEstimated'' (PBool True))))
         | _ \<Rightarrow> Inl TypeError)"

definition estimate_price :: "pydict \<Rightarrow> string \<Rightarrow> py_error + pydict" where
  "estimate_price product query =
     (case py_lower (dict_get product ''productName'' (PStr [])) of
        Inl e \<Rightarrow> Inl e
      | Inr product_name \<Rightarrow>
          if truthy (dict_get product ''price'' PNone) then Inr product
          else if str_contains product_name ''apple watch'' then set_estimate product ''399''
          else (case py_lower (dict_get product ''source'' (PStr [])) of
            Inl e \<Rightarrow> Inl e
          | Inr src \<Rightarrow>
              if str_contains src ''apple'' then set_estimate product ''399''
              else if str_contains product_name ''garmin'' \<or> str_contains src ''garmin''
                then set_estimate product ''299''
              else if str_contains product_name ''amazfit'' \<or> str_contains src ''amazfit''
                then set_estimate product ''149''
              else if str_contains product_name ''fitbit'' \<or> str_contains src ''fitbit''
                then set_estimate product ''199''
              else if list_ex (\<lambda>luxury. str_contains product_name luxury)
                        [''omega'', ''tudor'', ''vacheron'', ''constantin'', ''luxury'']
                then set_estimate product ''2999''
              else if str_contains product_name ''smartwatch''
                      \<or> str_contains product_name ''smart watch''
                      \<or> str_contains (str_lower query) ''smartwatch''
                then set_estimate product ''149''
              else Inr product))"

text \<open>The data model of the specification: a ProductRecord.\<close>

definition str_field :: "pydict \<Rightarrow> string \<Rightarrow> bool" where
  "str_field d k = (case map_of d k of Some (PStr s) \<Rightarrow> True | _ \<Rightarrow> False)"

definition ProductRecord :: "pydict \<Rightarrow> bool" where
  "ProductRecord p =
     (list_all (str_field p) [''link'', ''price'', ''currency'', ''productName'', ''source'', ''imageUrl'']
      \<and> (case map_of p ''additionalInfo'' of
            None \<Rightarrow> True | Some PNone \<Rightarrow> True | Some (PDict info) \<Rightarrow> True | _ \<Rightarrow> False))"

text \<open>The estimator as the specification words it: an ordered keyword table, first match wins.\<close>

record price_rule =
  name_keywords :: "string list"
  source_keywords :: "string list"
  query_keywords :: "string list"
  flat_price :: string

definition PRICE_RULES :: "price_rule list" where
  "PRICE_RULES =
     [\<lparr> name_keywords = [''apple watch''], source_keywords = [''apple''], query_keywords = [],
        flat_price = ''399'' \<rparr>,
      \<lparr> name_keywords = [''garmin''], source_keywords = [''garmin''], query_keywords = [],
        flat_price = ''299'' \<rparr>,
      \<lparr> name_keywords = [''amazfit''], source_keywords = [''amazfit''], query_keywords = [],
        flat_price = ''149'' \<rparr>,
      \<lparr> name_keywords = [''fitbit''], source_keywords = [''fitbit''], query_keywords = [],
        flat_price = ''199'' \<rparr>,
      \<lparr> name_keywords = [''omega'', ''tudor'', ''vacheron'', ''constantin'', ''luxury''],
        source_keywords = [], query_keywords = [], flat_price = ''2999'' \<rparr>,
      \<lparr> name_keywords = [''smartwatch'', ''smart watch''], source_keywords = [],
        query_keywords = [''smartwatch''], flat_price = ''149'' \<rparr>]"

definition rule_matches :: "string \<Rightarrow> string \<Rightarrow> string \<Rightarrow> price_rule \<Rightarrow> bool" where
  "rule_matches product_name src query r =
     (list_ex (str_contains (str_lower product_name)) (name_keywords r)
      \<or> list_ex (str_contains (str_lower src)) (source_keywords r)
      \<or> list_ex (str_contains (str_lower query)) (query_keywords r))"

definition str_of :: "pyval \<Rightarrow> string" where
  "str_of v = (case v of PStr s \<Rightarrow> s | _ \<Rightarrow> [])"

definition info_of :: "pydict \<Rightarrow> pydict" where
  "info_of p = (case dict_get p ''additionalInfo'' PNone of PDict info \<Rightarrow> info | _ \<Rightarrow> [])"

definition with_estimate :: "pydict \<Rightarrow> string \<Rightarrow> pydict" where
  "with_estimate p price =
     dict_set (dict_set p ''price'' (PStr price)) ''additionalInfo''
       (PDict (dict_set (info_of p) ''priceEstimated'' (PBool True)))"

definition estimate_by_table :: "pydict \<Rightarrow> string \<Rightarrow> pydict" where
  "estimate_by_table p query =
     (if str_of (dict_get p ''price'' PNone) \<noteq> [] then p
      else (case find (rule_matches (str_of (dict_get p ''productName'' PNone))
                                    (str_of (dict_get p ''source'' PNone)) query) PRICE_RULES of
              None \<Rightarrow> p
            | Some r \<Rightarrow> with_estimate p (flat_price r)))"

section \<open>The ranker (src/api/routes.py, get_price_for_sorting and sorted)\<close>

text \<open>
  A Python float is NaN, an infinity or a finite double, kept as its exact rational value.
  \<open>float_lt\<close> is the comparison \<open><\<close> of floats, false whenever NaN is involved.
\<close>

datatype pyfloat = NaN | NegInf | Fin rat | PosInf

fun float_lt :: "pyfloat \<Rightarrow> pyfloat \<Rightarrow> bool" where
  "float_lt NaN b = False"
| "float_lt a NaN = False"
| "float_lt NegInf NegInf = False"
| "float_lt NegInf b = True"
| "float_lt (Fin x) (Fin y) = (x < y)"
| "float_lt (Fin x) PosInf = True"
| "float_lt (Fin x) NegInf = False"
| "float_lt PosInf b = False"

definition float_le :: "pyfloat \<Rightarrow> pyfloat \<Rightarrow> bool" where
  "float_le a b = (a \<noteq> NaN \<and> b \<noteq> NaN \<and> (a = b \<or> float_lt a b))"

text \<open>
  Rounding a rational to the nearest double, ties to even: 53 bits of precision, the
  exponent clamped below for subnormals, overflow to infinity.
\<close>

definition pow2 :: "int \<Rightarrow> rat" where
  "pow2 z = (if 0 \<le> z then 2 ^ nat z else 1 / 2 ^ nat (- z))"

definition pow10 :: "int \<Rightarrow> rat" where
  "pow10 z = (if 0 \<le> z then 10 ^ nat z else 1 / 10 ^ nat (- z))"

definition floor_log2 :: "rat \<Rightarrow> int" where
  "floor_log2 q =
     (let (a, b) = quotient_of q; c = bitlen a - bitlen b in if pow2 c \<le> q then c else c - 1)"

definition round_half_even :: "rat \<Rightarrow> int" where
  "round_half_even q =
     (let f = \<lfloor>q\<rfloor>; d = q - of_int f in
      if d < 1 / 2 then f else if 1 / 2 < d then f + 1 else if even f then f else f + 1)"

definition round_double_pos :: "rat \<Rightarrow> pyfloat" where
  "round_double_pos q =
     (let e = max (floor_log2 q) (- 1022);
          ulp = pow2 (e - 52);
          v = of_int (round_half_even (q / ulp)) * ulp
      in if pow2 1024 \<le> v then PosInf else Fin v)"

definition float_neg :: "pyfloat \<Rightarrow> pyfloat" where
  "float_neg f = (case f of NaN \<Rightarrow> NaN | NegInf \<Rightarrow> PosInf | PosInf \<Rightarrow> NegInf | Fin q \<Rightarrow> Fin (- q))"

definition round_double :: "rat \<Rightarrow> pyfloat" where
  "round_double q =
     (if q = 0 then Fin 0 else if 0 < q then round_double_pos q
      else float_neg (round_double_pos (- q)))"

text \<open>
  \<open>float(s)\<close> on a string: surrounding whitespace stripped, an optional sign, then
  \<open>inf\<close>, \<open>infinity\<close> or \<open>nan\<close> in any case, or a decimal numeral (digits with
  single underscores between them, an optional fraction, an optional exponent).
  \<open>None\<close> is ValueError.  The whitespace \<open>float\<close> strips is tab, line feed, vertical
  tab, form feed, carriage return and space, and of the characters above 127 the next-line
  control (133) and the no-break space (160); the separators 28 to 31 are not stripped.
\<close>

definition is_digit :: "char \<Rightarrow> bool" where
  "is_digit c = (let n = (of_char c :: nat) in 48 \<le> n \<and> n \<le> 57)"

definition is_space :: "char \<Rightarrow> bool" where
  "is_space c = (let n = (of_char c :: nat) in (9 \<le> n \<and> n \<le> 13) \<or> n = 32 \<or> n = 133 \<or> n = 160)"

definition str_strip :: "string \<Rightarrow> string" where
  "str_strip s = dropWhile is_space (rev (dropWhile is_space (rev s)))"

definition nat_of_digits :: "string \<Rightarrow> nat" where
  "nat_of_digits ds = foldl (\<lambda>a d. 10 * a + (of_char d - 48)) 0 ds"

fun digitpart :: "string \<Rightarrow> string \<times> string" where
  "digitpart [] = ([], [])"
| "digitpart (c # cs) =
     (if is_digit c then
        (case cs of
           [] \<Rightarrow> ([c], [])
         | d # ds \<Rightarrow>
             if is_digit d then (let (xs, r) = digitpart cs in (c # xs, r))
             else if d = CHR ''_'' \<and> (case ds of [] \<Rightarrow> False | e # es \<Rightarrow> is_digit e)
               then (let (xs, r) = digitpart ds in (c # xs, r))
             else ([c], cs))
      else ([], c # cs))"

definition parse_sign :: "string \<Rightarrow> bool \<times> string" where
  "parse_sign s =
     (case s of
        [] \<Rightarrow> (False, [])
      | c # r \<Rightarrow> if c = CHR ''-'' then (True, r) else if c = CHR ''+'' then (False, r)
                 else (False, s))"

definition parse_exponent :: "string \<Rightarrow> int option" where
  "parse_exponent r =
     (case r of
        [] \<Rightarrow> Some 0
      | e # r1 \<Rightarrow>
          if e = CHR ''e'' \<or> e = CHR ''E'' then
            (let (neg, r2) = parse_sign r1; (ds, r3) = digitpart r2 in
             if ds = [] \<or> r3 \<noteq> [] then None
             else Some (if neg then - int (nat_of_digits ds) else int (nat_of_digits ds)))
          else None)"

definition parse_number :: "string \<Rightarrow> rat option" where
  "parse_number u =
     (let (ip, r1) = digitpart u;
          (fp, r2) = (case r1 of [] \<Rightarrow> ([], r1)
                      | d # r \<Rightarrow> if d = CHR ''.'' then digitpart r else ([], r1))
      in if ip = [] \<and> fp = [] then None
         else (case parse_exponent r2 of
                 None \<Rightarrow> None
               | Some ex \<Rightarrow>
                   Some (of_nat (nat_of_digits (ip @ fp)) * pow10 (ex - int (length fp)))))"

definition py_float :: "string \<Rightarrow> pyfloat option" where
  "py_float s =
     (let (neg, u) = parse_sign (str_strip s); lu = str_lower u in
      if lu = ''inf'' \<or> lu = ''infinity'' then Some (if neg then NegInf else PosInf)
      else if lu = ''nan'' then Some NaN
      else (case parse_number u of
              None \<Rightarrow> None
            | Some q \<Rightarrow> Some (round_double (if neg then - q else q))))"

text \<open>
  \<open>get_price_for_sorting\<close>: \<open>item.get("price", "0").replace(",", "")\<close> parsed as a float;
  AttributeError (the price is not a string) and ValueError both give 0.
\<close>

definition get_price_for_sorting :: "pydict \<Rightarrow> pyfloat" where
  "get_price_for_sorting item =
     (case dict_get item ''price'' (PStr ''0'') of
        PStr s \<Rightarrow> (case py_float (filter (\<lambda>c. c \<noteq> CHR '','') s) of
                     Some f \<Rightarrow> f
                   | None \<Rightarrow> Fin 0)
      | _ \<Rightarrow> Fin 0)"

text \<open>
  \<open>sorted(results, key=k)\<close> compares keys with \<open><\<close> only and is stable.  It first looks
  for a run: a list in which no element's key is \<open><\<close> the key before it is returned as it
  is (\<open>ascending_run\<close>).  Where no key is NaN, \<open><\<close> orders the keys totally, the stable
  sort is unique, and it is the insertion sort below.  In the remaining case, a NaN key
  in a list that is not a run, the order depends on which comparisons the library's
  merge sort happens to make; that case is not modelled, and is \<open>None\<close>.
\<close>

fun ascending_run :: "('a \<Rightarrow> pyfloat) \<Rightarrow> 'a list \<Rightarrow> bool" where
  "ascending_run key [] = True"
| "ascending_run key [x] = True"
| "ascending_run key (x # y # ys) = (\<not> float_lt (key y) (key x) \<and> ascending_run key (y # ys))"

fun insort_by :: "('a \<Rightarrow> pyfloat) \<Rightarrow> 'a \<Rightarrow> 'a list \<Rightarrow> 'a list" where
  "insort_by key x [] = [x]"
| "insort_by key x (y # ys) =
     (if float_lt (key y) (key x) then y # insort_by key x ys else x # y # ys)"

definition sorted_by :: "('a \<Rightarrow> pyfloat) \<Rightarrow> 'a list \<Rightarrow> 'a list option" where
  "sorted_by key xs =
     (if ascending_run key xs then Some xs
      else if list_ex (\<lambda>x. key x = NaN) xs then None
      else Some (foldr (insort_by key) xs []))"

section \<open>The request boundary (src/api/routes.py, search_products)\<close>

text \<open>
  The endpoint awaits \<open>search_products_google(query.query, query.country)\<close>, an HTTP call
  and so a parameter here: it returns a list of records or raises.  Any exception inside
  the handler becomes HTTP 500.  The list comprehension over \<open>estimate_price\<close> stops at
  the first record that raises.  The result is \<open>None\<close> only where \<open>sorted_by\<close> is: the
  endpoint returns a list then, in an order that is not modelled.
\<close>

fun map_estimate :: "pydict list \<Rightarrow> string \<Rightarrow> py_error + pydict list" where
  "map_estimate [] query = Inr []"
| "map_estimate (item # items) query =
     (case estimate_price item query of
        Inl e \<Rightarrow> Inl e
      | Inr item' \<Rightarrow>
          (case map_estimate items query of
             Inl e \<Rightarrow> Inl e
           | Inr rest \<Rightarrow> Inr (item' # rest)))"

definition routes_search_products ::
    "(string \<Rightarrow> string \<Rightarrow> py_error + pydict list) \<Rightarrow> string \<Rightarrow> string
       \<Rightarrow> (py_error + pydict list) option" where
  "routes_search_products search_products_google country query =
     (case search_products_google query country of
        Inl e \<Rightarrow> Some (Inl (HTTPException 500 e))
      | Inr results \<Rightarrow>
          if results = [] then Some (Inr [])
          else (case map_estimate results query of
                  Inl e \<Rightarrow> Some (Inl (HTTPException 500 e))
                | Inr estimated \<Rightarrow> map_option Inr (sorted_by get_price_for_sorting estimated)))"

text \<open>
  \<open>GoogleCustomSearchScraper.search\<close> (src/scraper/scraper_manager.py): the same source
  as an adapter of the manager, with every exception turned into the empty list.
\<close>

definition GoogleCustomSearchScraper_search ::
    "(string \<Rightarrow> string \<Rightarrow> py_error + pydict list) \<Rightarrow> string \<Rightarrow> string \<Rightarrow> task_outcome" where
  "GoogleCustomSearchScraper_search search_products_google country query =
     (case search_products_google query country of
        Inl e \<Rightarrow> ReturnsList []
      | Inr results \<Rightarrow> ReturnsList results)"

text \<open>
  The pipeline as the specification words it: the orchestrator's merged result, then
  the estimator on every record, then the ranker.
\<close>

definition orchestration_pipeline ::
    "scraper list \<Rightarrow> string \<Rightarrow> string \<Rightarrow> (py_error + pydict list) option" where
  "orchestration_pipeline scrapers country query =
     (case ScraperManager_search_products scrapers country query of
        Inl e \<Rightarrow> Some (Inl (HTTPException 500 e))
      | Inr merged \<Rightarrow>
          (case map_estimate merged query of
             Inl e \<Rightarrow> Some (Inl (HTTPException 500 e))
           | Inr estimated \<Rightarrow> map_option Inr (sorted_by get_price_for_sorting estimated)))"

section \<open>Price cleaning (src/scraper/base_scraper.py, clean_price)\<close>














section \<open>Example data\<close>

definition priced :: "string \<Rightarrow> pydict" where
  "priced p = [(''productName'', PStr ''watch''), (''price'', PStr p)]"

definition ex_record :: pydict where
  "ex_record = [(''productName'', PStr ''Garmin Instinct''), (''price'', PStr ''199'')]"

definition ex_loaded :: "scraper list" where
  "ex_loaded =
     [AmazonScraper (\<lambda>c q. Raises (OtherError ''timeout'')),
      FlipkartScraper (FlipkartScraper_search (\<lambda>q. ReturnsList [])),
      GenericAIScraper (\<lambda>c q. ReturnsList [ex_record]),
      GoogleCustomSearchScraper (\<lambda>c q. ReturnsList [])]"

definition ex_faulty :: "scraper list" where
  "ex_faulty =
     [GenericAIScraper (\<lambda>c q. ReturnsList [ex_record]),
      AmazonScraper (\<lambda>c q. Raises (OtherError ''timeout'')),
      GoogleCustomSearchScraper (\<lambda>c q. ReturnsList [priced ''149'', priced ''299''])]"

definition ex_apple :: pydict where
  "ex_apple =
     [(''link'', PStr ''https://some-store.example/w''), (''price'', PStr ''''),
      (''currency'', PStr ''''), (''productName'', PStr ''Apple Watch SE''),
      (''source'', PStr ''some-store''), (''imageUrl'', PStr '''')]"

definition ex_prices :: "pydict list" where
  "ex_prices = [priced ''299'', priced ''abc'', priced [], priced ''149'']"

definition ex_nan_prices :: "pydict list" where
  "ex_nan_prices = [priced ''2'', priced ''nan'', priced ''1'']"

definition ex_product :: "string \<Rightarrow> string \<Rightarrow> string \<Rightarrow> pydict" where
  "ex_product src nm p =
     [(''link'', PStr (''https://'' @ src @ ''/item'')), (''price'', PStr p),
      (''currency'', PStr ''USD''), (''productName'', PStr nm), (''source'', PStr src),
      (''imageUrl'', PStr [])]"

definition ex_google :: "string \<Rightarrow> string \<Rightarrow> py_error + pydict list" where
  "ex_google query country = Inr [ex_product ''shop.example'' ''Garmin Instinct'' ''20'']"

text \<open>The end-to-end scenario of the specification, both records from the Google source.\<close>

definition ex_garmin :: "string \<Rightarrow> string \<Rightarrow> py_error + pydict list" where
  "ex_garmin query country =
     Inr [ex_product ''shop.example'' ''Garmin Instinct'' [],
          ex_product ''amazon.com'' ''Garmin Forerunner 55'' ''199'']"

definition ex_two_sources :: "scraper list" where
  "ex_two_sources =
     [AmazonScraper (\<lambda>c q. ReturnsList [ex_product ''amazon.com'' ''Garmin Forerunner 55'' ''10'']),
      GoogleCustomSearchScraper (GoogleCustomSearchScraper_search ex_google)]"

section \<open>Strings: case conversion\<close>






section \<open>The scraper manager: selection and fault isolation\<close>

lemma str_upper_ALL: "str_upper ''ALL'' = ''ALL''"
  by code_simp

lemma get_relevant_empty_iff:
  "get_relevant_scrapers scrapers country = [] \<longleftrightarrow> \<not> (\<exists>s\<in>set scrapers. lists_country s country)"
  by (auto simp: get_relevant_scrapers_def filter_empty_conv)

lemma select_scrapers_if:
  "select_scrapers scrapers country =
     (if (\<exists>s\<in>set scrapers. lists_country s country)
      then filter (\<lambda>s. lists_country s country) scrapers
      else filter (\<lambda>s. ''ALL'' \<in> set (supported_countries s)) scrapers)"
proof (cases "get_relevant_scrapers scrapers country")
  case Nil
  then show ?thesis
    using get_relevant_empty_iff[of scrapers country] by (simp add: select_scrapers_def)
next
  case (Cons r rs)
  then have "get_relevant_scrapers scrapers country \<noteq> []" by simp
  then have "\<exists>s\<in>set scrapers. lists_country s country"
    using get_relevant_empty_iff[of scrapers country] by blast
  then show ?thesis using Cons
    by (simp add: select_scrapers_def get_relevant_scrapers_def)
qed

lemma wildcard_only_lists:
  "supported_countries g = [''ALL''] \<Longrightarrow> lists_country g country \<longleftrightarrow> str_upper country = ''ALL''"
  by (simp add: lists_country_def str_upper_ALL)

text \<open>
  Claim C2, as the code has it.  The first stage keeps exactly the adapters that list the
  requested country (compared in upper case); the wildcard is not matched at this stage.
  Only when no adapter lists the country are the adapters holding the literal \<open>ALL\<close>
  dispatched, and when there are none the manager returns the empty list.  So an adapter
  whose \<open>supported_countries\<close> is exactly \<open>[ALL]\<close> is selected precisely when no loaded
  adapter lists the country (or the requested country is itself \<open>ALL\<close> in some case).
\<close>

theorem select_scrapers_two_stage:
  "select_scrapers scrapers country =
     (if (\<exists>s\<in>set scrapers. lists_country s country)
      then filter (\<lambda>s. lists_country s country) scrapers
      else filter (\<lambda>s. ''ALL'' \<in> set (supported_countries s)) scrapers)
   \<and> (select_scrapers scrapers country = [] \<longrightarrow>
        ScraperManager_search_products scrapers country query = Inr [])
   \<and> (g \<in> set scrapers \<and> supported_countries g = [''ALL''] \<longrightarrow>
        (g \<in> set (select_scrapers scrapers country) \<longleftrightarrow>
           (str_upper country = ''ALL'' \<or> \<not> (\<exists>s\<in>set scrapers. lists_country s country))))"
proof (intro conjI impI)
  show "select_scrapers scrapers country =
     (if (\<exists>s\<in>set scrapers. lists_country s country)
      then filter (\<lambda>s. lists_country s country) scrapers
      else filter (\<lambda>s. ''ALL'' \<in> set (supported_countries s)) scrapers)"
    by (rule select_scrapers_if)
next
  assume "select_scrapers scrapers country = []"
  then show "ScraperManager_search_products scrapers country query = Inr []"
    by (simp add: ScraperManager_search_products_def)
next
  assume g: "g \<in> set scrapers \<and> supported_countries g = [''ALL'']"
  then have w: "lists_country g country \<longleftrightarrow> str_upper country = ''ALL''"
    using wildcard_only_lists by blast
  show "g \<in> set (select_scrapers scrapers country) \<longleftrightarrow>
           (str_upper country = ''ALL'' \<or> \<not> (\<exists>s\<in>set scrapers. lists_country s country))"
  proof (cases "\<exists>s\<in>set scrapers. lists_country s country")
    case True
    then show ?thesis using g w by (simp add: select_scrapers_if)
  next
    case False
    then show ?thesis using g by (simp add: select_scrapers_if)
  qed
qed

lemma ex_loaded_names_US: "map name (select_scrapers ex_loaded ''US'') = [''amazon'']"
  by code_simp

lemma ex_loaded_names_BR:
  "map name (select_scrapers ex_loaded ''BR'') = [''amazon'', ''generic_ai'', ''google_custom_search'']"
  by code_simp

text \<open>
  Claim C2 as stated fails: with the four adapters of the repository loaded and country
  \<open>US\<close>, only Amazon is selected, although the generic adapter supports exactly \<open>ALL\<close>.
\<close>

theorem select_scrapers_wildcard_counterexample:
  "select_scrapers ex_loaded ''US'' \<noteq>
     filter (\<lambda>s. ''US'' \<in> set (supported_countries s) \<or> ''ALL'' \<in> set (supported_countries s))
       ex_loaded
   \<and> map name (select_scrapers ex_loaded ''US'') = [''amazon'']
   \<and> supported_countries (ex_loaded ! 2) = [''ALL'']"
proof -
  have "length (select_scrapers ex_loaded ''US'') = 1"
    using ex_loaded_names_US by (metis length_map length_Cons list.size(3) One_nat_def)
  moreover have "length (filter (\<lambda>s. ''US'' \<in> set (supported_countries s) \<or> ''ALL'' \<in> set (supported_countries s))
       ex_loaded) = 3"
    by (simp add: ex_loaded_def AmazonScraper_def FlipkartScraper_def GenericAIScraper_def
        GoogleCustomSearchScraper_def)
  moreover have "supported_countries (ex_loaded ! 2) = [''ALL'']"
    by (simp add: ex_loaded_def GenericAIScraper_def)
  ultimately show ?thesis using ex_loaded_names_US by auto
qed

lemma ex_loaded_BR_unlisted: "\<not> (\<exists>s\<in>set ex_loaded. lists_country s ''BR'')"
  by code_simp

lemma ex_flipkart_US: "select_scrapers [ex_loaded ! 1] ''US'' = []"
proof -
  have "map name (select_scrapers [ex_loaded ! 1] ''US'') = []" by code_simp
  then show ?thesis by simp
qed

text \<open>Claim C2 at the loaded adapters: country \<open>BR\<close> (listed by none) and Flipkart alone.\<close>

theorem select_scrapers_two_stage_witness:
  "ex_loaded ! 2 \<in> set (select_scrapers ex_loaded ''BR'')
   \<and> select_scrapers ex_loaded ''BR'' = filter (\<lambda>s. ''ALL'' \<in> set (supported_countries s)) ex_loaded
   \<and> ScraperManager_search_products [ex_loaded ! 1] ''US'' ''watch'' = Inr []"
proof -
  have g: "ex_loaded ! 2 \<in> set ex_loaded \<and> supported_countries (ex_loaded ! 2) = [''ALL'']"
    by (simp add: ex_loaded_def GenericAIScraper_def)
  show ?thesis
    using select_scrapers_two_stage[of ex_loaded "''BR''" "''watch''" "ex_loaded ! 2"]
      select_scrapers_two_stage[of "[ex_loaded ! 1]" "''US''" "''watch''" "ex_loaded ! 2"]
      g ex_loaded_BR_unlisted ex_flipkart_US
    by simp
qed

lemma process_results_concat:
  "process_results rs processed =
     processed @ concat (map (\<lambda>r. case r of ReturnsList xs \<Rightarrow> xs | _ \<Rightarrow> []) rs)"
  by (induction rs processed rule: process_results.induct) simp_all

lemma search_products_concat:
  "ScraperManager_search_products scrapers country query =
     Inr (concat (map (successful_results country query) (select_scrapers scrapers country)))"
proof (cases "select_scrapers scrapers country")
  case Nil
  then show ?thesis by (simp add: ScraperManager_search_products_def)
next
  case (Cons r rs)
  have m: "concat (map (\<lambda>r. case r of ReturnsList xs \<Rightarrow> xs | _ \<Rightarrow> [])
                    (map (\<lambda>s. search s country query) (select_scrapers scrapers country)))
        = concat (map (successful_results country query) (select_scrapers scrapers country))"
    by (simp add: successful_results_def[abs_def] comp_def)
  have "ScraperManager_search_products scrapers country query =
          Inr (process_results (map (\<lambda>s. search s country query) (select_scrapers scrapers country)) [])"
    using Cons by (simp add: ScraperManager_search_products_def gather_def Let_def)
  then show ?thesis
    by (simp only: process_results_concat m append_Nil)
qed

text \<open>
  Claim C3.  If an adapter among the selected ones raises, the merged result is the
  concatenation, in iteration order, of what the other selected adapters returned
  successfully, and \<open>ScraperManager.search_products\<close> returns normally.
\<close>

theorem orchestrator_fault_isolation:
  assumes "select_scrapers scrapers country = pre @ [s] @ post"
      and "search s country query = Raises e"
  shows "ScraperManager_search_products scrapers country query =
           Inr (concat (map (successful_results country query) (pre @ post)))
         \<and> (\<forall>e'. ScraperManager_search_products scrapers country query \<noteq> Inl e')"
proof -
  have "successful_results country query s = []"
    using assms(2) by (simp add: successful_results_def)
  then show ?thesis
    using assms(1) by (simp add: search_products_concat)
qed

lemma ex_faulty_select:
  "select_scrapers ex_faulty ''BR'' =
     [GenericAIScraper (\<lambda>c q. ReturnsList [ex_record])]
     @ [AmazonScraper (\<lambda>c q. Raises (OtherError ''timeout''))]
     @ [GoogleCustomSearchScraper (\<lambda>c q. ReturnsList [priced ''149'', priced ''299''])]"
proof -
  have "\<not> lists_country (ex_faulty ! 0) ''BR''" "\<not> lists_country (ex_faulty ! 1) ''BR''"
       "\<not> lists_country (ex_faulty ! 2) ''BR''"
    by code_simp+
  then show ?thesis
    by (simp add: select_scrapers_def get_relevant_scrapers_def ex_faulty_def
          GenericAIScraper_def AmazonScraper_def GoogleCustomSearchScraper_def)
qed

text \<open>
  Claim C3 at three adapters selected for \<open>BR\<close>, where the Amazon adapter, second in
  iteration order, times out: the merged result is the generic adapter's record followed
  by the two records of the Google adapter.
\<close>

theorem orchestrator_fault_isolation_witness:
  "ScraperManager_search_products ex_faulty ''BR'' ''watch''
     = Inr [ex_record, priced ''149'', priced ''299'']"
proof -
  have r: "search (AmazonScraper (\<lambda>c q. Raises (OtherError ''timeout''))) ''BR'' ''watch''
             = Raises (OtherError ''timeout'')"
    by (simp add: AmazonScraper_def)
  show ?thesis
    using orchestrator_fault_isolation[OF ex_faulty_select r]
    by (simp add: successful_results_def GenericAIScraper_def GoogleCustomSearchScraper_def)
qed






section \<open>The price estimator\<close>

lemma ProductRecord_fields:
  assumes "ProductRecord p"
  obtains n s pr where "map_of p ''productName'' = Some (PStr n)" "map_of p ''source'' = Some (PStr s)"
     "map_of p ''price'' = Some (PStr pr)"
  using assms unfolding ProductRecord_def str_field_def
  by (auto split: option.splits pyval.splits)

lemma set_estimate_wf:
  assumes "ProductRecord p"
  shows "set_estimate p price = Inr (with_estimate p price)"
proof -
  have pa: "''price'' \<noteq> ''additionalInfo''" by simp
  have g: "dict_get (dict_set p ''price'' (PStr price)) ''additionalInfo'' PNone
           = dict_get p ''additionalInfo'' PNone"
    by (simp add: dict_get_def dict_set_def update_conv')
  consider (none) "map_of p ''additionalInfo'' = None" | (pnone) "map_of p ''additionalInfo'' = Some PNone"
    | (dict) info where "map_of p ''additionalInfo'' = Some (PDict info)"
    using assms unfolding ProductRecord_def by (auto split: option.splits pyval.splits)
  then show ?thesis
  proof cases
    case none
    then show ?thesis
      by (simp add: set_estimate_def with_estimate_def info_of_def Let_def g dict_get_def dict_set_def update_conv')
  next
    case pnone
    then show ?thesis
      by (simp add: set_estimate_def with_estimate_def info_of_def Let_def g dict_get_def dict_set_def update_conv')
  next
    case dict
    then show ?thesis
      by (cases info) (simp_all add: set_estimate_def with_estimate_def info_of_def Let_def g dict_get_def dict_set_def update_conv')
  qed
qed


lemma estimate_price_table:
  assumes "ProductRecord p"
  shows "estimate_price p query = Inr (estimate_by_table p query)"
proof -
  from assms obtain n s pr where f: "map_of p ''productName'' = Some (PStr n)"
     "map_of p ''source'' = Some (PStr s)" "map_of p ''price'' = Some (PStr pr)"
    by (rule ProductRecord_fields)
  show ?thesis
    using f set_estimate_wf[OF assms]
    by (simp add: estimate_price_def estimate_by_table_def py_lower_def dict_get_def str_of_def
          PRICE_RULES_def rule_matches_def)
qed

lemma with_estimate_price: "dict_get (with_estimate p x) ''price'' d = PStr x"
  by (simp add: with_estimate_def dict_get_def dict_set_def update_conv')

lemma with_estimate_flag:
  "dict_get (info_of (with_estimate p x)) ''priceEstimated'' d = PBool True"
  by (simp add: with_estimate_def info_of_def dict_get_def dict_set_def update_conv')

lemma with_estimate_other:
  "k \<noteq> ''price'' \<Longrightarrow> k \<noteq> ''additionalInfo'' \<Longrightarrow> map_of (with_estimate p x) k = map_of p k"
  by (simp add: with_estimate_def dict_set_def update_conv')

lemma with_estimate_info_other:
  "k \<noteq> ''priceEstimated'' \<Longrightarrow> map_of (info_of (with_estimate p x)) k = map_of (info_of p) k"
  by (simp add: with_estimate_def info_of_def dict_get_def dict_set_def update_conv')

text \<open>
  Claim C6.  On a ProductRecord, a non-empty price leaves the record as it is; with an
  empty price the first matching rule of the ordered keyword table assigns its flat price
  and sets \<open>additionalInfo.priceEstimated\<close> (creating \<open>additionalInfo\<close> when absent), and
  the currency is untouched; no rule matching leaves the record as it is.
\<close>

theorem estimate_price_contract:
  assumes "ProductRecord p"
  shows "(str_of (dict_get p ''price'' PNone) \<noteq> [] \<longrightarrow> estimate_price p query = Inr p)
       \<and> (str_of (dict_get p ''price'' PNone) = [] \<longrightarrow>
            estimate_price p query =
              (case find (rule_matches (str_of (dict_get p ''productName'' PNone))
                            (str_of (dict_get p ''source'' PNone)) query) PRICE_RULES of
                 None \<Rightarrow> Inr p
               | Some r \<Rightarrow> Inr (with_estimate p (flat_price r))))
       \<and> dict_get (with_estimate p x) ''price'' PNone = PStr x
       \<and> dict_get (info_of (with_estimate p x)) ''priceEstimated'' PNone = PBool True
       \<and> map_of (with_estimate p x) ''currency'' = map_of p ''currency''"
  using estimate_price_table[OF assms, of query]
  by (simp add: estimate_by_table_def with_estimate_price with_estimate_flag with_estimate_other
           split: option.splits)

lemma ex_apple_record: "ProductRecord ex_apple"
  by (simp add: ProductRecord_def ex_apple_def str_field_def)

lemma ex_apple_rule:
  "find (rule_matches ''Apple Watch SE'' ''some-store'' ''apple watch'') PRICE_RULES
     = Some (PRICE_RULES ! 0)"
  by code_simp

text \<open>
  Claim C6 at the specification's example: Apple Watch SE from some-store, query
  \<open>apple watch\<close>, is priced 399 and flagged; estimating again changes nothing.
\<close>

theorem estimate_price_contract_witness:
  "estimate_price ex_apple ''apple watch'' = Inr (with_estimate ex_apple ''399'')
   \<and> dict_get (with_estimate ex_apple ''399'') ''price'' PNone = PStr ''399''
   \<and> dict_get (info_of (with_estimate ex_apple ''399'')) ''priceEstimated'' PNone = PBool True
   \<and> estimate_price (with_estimate ex_apple ''399'') ''apple watch''
       = Inr (with_estimate ex_apple ''399'')"
proof -
  have e: "str_of (dict_get ex_apple ''price'' PNone) = []"
          "str_of (dict_get ex_apple ''productName'' PNone) = ''Apple Watch SE''"
          "str_of (dict_get ex_apple ''source'' PNone) = ''some-store''"
    by (simp_all add: ex_apple_def dict_get_def str_of_def)
  have f: "flat_price (PRICE_RULES ! 0) = ''399''" by (simp add: PRICE_RULES_def)
  have w: "ProductRecord (with_estimate ex_apple ''399'')"
    by (simp add: ProductRecord_def ex_apple_def str_field_def with_estimate_def dict_set_def info_of_def dict_get_def)
  have n: "str_of (dict_get (with_estimate ex_apple ''399'') ''price'' PNone) \<noteq> []"
    by (simp add: with_estimate_price str_of_def)
  show ?thesis
    using estimate_price_contract[OF ex_apple_record, of "''apple watch''" "''399''"]
          estimate_price_contract[OF w, of "''apple watch''" "''399''"]
          e f n ex_apple_rule
    by simp
qed

section \<open>The ranker\<close>

lemma float_lt_irrefl: "\<not> float_lt a a"
  by (cases a) simp_all

lemma float_le_total: "a \<noteq> NaN \<Longrightarrow> b \<noteq> NaN \<Longrightarrow> \<not> float_lt a b \<Longrightarrow> float_le b a"
  by (cases a; cases b) (auto simp: float_le_def)

lemma float_lt_le: "float_lt a b \<Longrightarrow> float_le a b"
  by (cases a; cases b) (auto simp: float_le_def)

lemma float_le_trans: "float_le a b \<Longrightarrow> float_le b c \<Longrightarrow> float_le a c"
  by (cases a; cases b; cases c) (auto simp: float_le_def)

lemma set_insort_by: "set (insort_by key x ys) = insert x (set ys)"
  by (induction ys) auto

lemma mset_insort_by: "mset (insort_by key x ys) = add_mset x (mset ys)"
  by (induction ys) auto

lemma mset_insertion: "mset (foldr (insort_by key) xs []) = mset xs"
  by (induction xs) (simp_all add: mset_insort_by)

lemma set_insertion: "set (foldr (insort_by key) xs []) = set xs"
  using mset_insertion[of key xs] by (metis set_mset_mset)

lemma sorted_insort_by:
  assumes "sorted_wrt (\<lambda>a b. float_le (key a) (key b)) ys"
      and "key x \<noteq> NaN" and "\<forall>y\<in>set ys. key y \<noteq> NaN"
  shows "sorted_wrt (\<lambda>a b. float_le (key a) (key b)) (insort_by key x ys)"
  using assms
proof (induction ys)
  case Nil
  then show ?case by simp
next
  case (Cons y ys)
  show ?case
  proof (cases "float_lt (key y) (key x)")
    case True
    then have "float_le (key y) (key x)" by (rule float_lt_le)
    then show ?thesis using True Cons by (auto simp: set_insort_by)
  next
    case False
    then have xy: "float_le (key x) (key y)"
      using Cons.prems float_le_total[of "key y" "key x"] by simp
    then have "\<forall>z\<in>set ys. float_le (key x) (key z)"
      using Cons.prems(1) float_le_trans by auto
    then show ?thesis using False xy Cons.prems(1) by simp
  qed
qed

lemma sorted_insertion:
  assumes "\<forall>x\<in>set xs. key x \<noteq> NaN"
  shows "sorted_wrt (\<lambda>a b. float_le (key a) (key b)) (foldr (insort_by key) xs [])"
  using assms
proof (induction xs)
  case Nil
  then show ?case by simp
next
  case (Cons x xs)
  have "sorted_wrt (\<lambda>a b. float_le (key a) (key b)) (insort_by key x (foldr (insort_by key) xs []))"
    using Cons by (intro sorted_insort_by) (auto simp: set_insertion)
  then show ?case by simp
qed

lemma filter_insort_by:
  "filter (\<lambda>y. key y = k) (insort_by key x ys) =
     (if key x = k then x # filter (\<lambda>y. key y = k) ys else filter (\<lambda>y. key y = k) ys)"
  by (induction ys) (auto simp: float_lt_irrefl)

lemma stable_insertion:
  "filter (\<lambda>y. key y = k) (foldr (insort_by key) xs []) = filter (\<lambda>y. key y = k) xs"
  by (induction xs) (simp_all add: filter_insort_by)

text \<open>On a run the insertion sort changes nothing, so the two cases of \<open>sorted_by\<close> agree.\<close>

lemma run_insertion: "ascending_run key xs \<Longrightarrow> foldr (insort_by key) xs [] = xs"
  by (induction key xs rule: ascending_run.induct) simp_all

lemma sorted_by_no_nan:
  "\<forall>x\<in>set xs. key x \<noteq> NaN \<Longrightarrow> sorted_by key xs = Some (foldr (insort_by key) xs [])"
  by (simp add: sorted_by_def run_insertion list_ex_iff)

lemma key_missing: "map_of item ''price'' = None \<Longrightarrow> get_price_for_sorting item = Fin 0"
proof -
  have "py_float ''0'' = Some (Fin 0)" by code_simp
  moreover assume "map_of item ''price'' = None"
  ultimately show ?thesis by (simp add: get_price_for_sorting_def dict_get_def)
qed

lemma key_unparseable:
  "map_of item ''price'' = Some (PStr s) \<Longrightarrow> py_float (filter (\<lambda>c. c \<noteq> CHR '','') s) = None
   \<Longrightarrow> get_price_for_sorting item = Fin 0"
  by (simp add: get_price_for_sorting_def dict_get_def)

lemma key_parsed:
  "map_of item ''price'' = Some (PStr s) \<Longrightarrow> py_float (filter (\<lambda>c. c \<noteq> CHR '','') s) = Some f
   \<Longrightarrow> get_price_for_sorting item = f"
  by (simp add: get_price_for_sorting_def dict_get_def)

lemma key_not_string:
  "map_of item ''price'' = Some v \<Longrightarrow> (\<forall>s. v \<noteq> PStr s) \<Longrightarrow> get_price_for_sorting item = Fin 0"
  by (cases v) (simp_all add: get_price_for_sorting_def dict_get_def)

lemma py_float_299: "py_float ''299'' = Some (Fin 299)" by code_simp
lemma py_float_149: "py_float ''149'' = Some (Fin 149)" by code_simp
lemma py_float_abc: "py_float ''abc'' = None" by code_simp
lemma py_float_empty: "py_float [] = None" by code_simp
lemma py_float_2: "py_float ''2'' = Some (Fin 2)" by code_simp
lemma py_float_1: "py_float ''1'' = Some (Fin 1)" by code_simp
lemma py_float_nan: "py_float ''nan'' = Some NaN" by code_simp

lemma key_priced:
  "get_price_for_sorting (priced p) =
     (case py_float (filter (\<lambda>c. c \<noteq> CHR '','') p) of Some f \<Rightarrow> f | None \<Rightarrow> Fin 0)"
  by (simp add: get_price_for_sorting_def priced_def dict_get_def)

lemma ex_prices_keys:
  "map get_price_for_sorting ex_prices = [Fin 299, Fin 0, Fin 0, Fin 149]"
  by (simp add: ex_prices_def key_priced py_float_299 py_float_149 py_float_abc py_float_empty)

text \<open>
  Where no price parses to NaN the ranker returns a permutation of its input, ascending
  by the key, and records with the same key keep their relative order.
\<close>

lemma ranker_stable_sort:
  assumes "\<forall>x\<in>set xs. get_price_for_sorting x \<noteq> NaN"
  shows "\<exists>ys. sorted_by get_price_for_sorting xs = Some ys
           \<and> mset ys = mset xs
           \<and> sorted_wrt (\<lambda>a b. float_le (get_price_for_sorting a) (get_price_for_sorting b)) ys
           \<and> (\<forall>k. filter (\<lambda>y. get_price_for_sorting y = k) ys
                   = filter (\<lambda>y. get_price_for_sorting y = k) xs)"
  using assms
  by (simp add: sorted_by_no_nan mset_insertion sorted_insertion stable_insertion)

text \<open>The example of the specification: prices 299, abc, the empty string and 149.\<close>

lemma ex_prices_sorted:
  "sorted_by get_price_for_sorting ex_prices =
     Some [priced ''abc'', priced [], priced ''149'', priced ''299'']"
  by (simp add: ex_prices_def sorted_by_def key_priced py_float_299 py_float_149 py_float_abc
        py_float_empty)

text \<open>
  Claim C4 at the prices 2, nan, 1.  The claim holds the ranker to an ascending order
  with key 0 for a price that is not a number.  The text \<open>nan\<close> is accepted by \<open>float\<close>,
  so its key is NaN and not 0; no comparison with NaN is true, the list counts as a run
  already in order, and the record priced 2 is returned before the record priced 1.
\<close>

theorem ranker_nan_unsorted:
  "map get_price_for_sorting ex_nan_prices = [Fin 2, NaN, Fin 1]
   \<and> sorted_by get_price_for_sorting ex_nan_prices
       = Some [priced ''2'', priced ''nan'', priced ''1'']
   \<and> float_lt (get_price_for_sorting (priced ''1'')) (get_price_for_sorting (priced ''2''))"
  by (simp add: ex_nan_prices_def sorted_by_def key_priced py_float_2 py_float_1 py_float_nan)

section \<open>The request boundary\<close>

lemma google_only_selected:
  "select_scrapers [GoogleCustomSearchScraper f] country = [GoogleCustomSearchScraper f]"
  by (simp add: select_scrapers_def get_relevant_scrapers_def GoogleCustomSearchScraper_def
           split: list.splits)

lemma google_only_search:
  "ScraperManager_search_products [GoogleCustomSearchScraper (GoogleCustomSearchScraper_search g)]
      country query = Inr (case g query country of Inl e \<Rightarrow> [] | Inr rs \<Rightarrow> rs)"
proof -
  have "successful_results country query
          (GoogleCustomSearchScraper (GoogleCustomSearchScraper_search g))
        = (case g query country of Inl e \<Rightarrow> [] | Inr rs \<Rightarrow> rs)"
    by (simp add: successful_results_def GoogleCustomSearchScraper_search_def
          GoogleCustomSearchScraper_def split: sum.splits)
  then show ?thesis
    by (simp only: search_products_concat google_only_selected list.map concat.simps append_Nil2)
qed

lemma routes_unfolded:
  "routes_search_products g country query =
     (case g query country of
        Inl e \<Rightarrow> Some (Inl (HTTPException 500 e))
      | Inr results \<Rightarrow>
          (case map_estimate results query of
             Inl e \<Rightarrow> Some (Inl (HTTPException 500 e))
           | Inr estimated \<Rightarrow> map_option Inr (sorted_by get_price_for_sorting estimated)))"
  by (simp add: routes_search_products_def sorted_by_def split: sum.splits)

text \<open>
  Claim C1, as the code has it.  The endpoint estimates and ranks the records of the
  single Google Custom Search source (an exception becomes HTTP 500) and never calls the
  scraper manager; when that source returns, the result is the pipeline of a manager
  whose only adapter is the Google adapter.
\<close>

theorem routes_search_products_single_source:
  "routes_search_products g country query =
     (case g query country of
        Inl e \<Rightarrow> Some (Inl (HTTPException 500 e))
      | Inr results \<Rightarrow>
          (case map_estimate results query of
             Inl e \<Rightarrow> Some (Inl (HTTPException 500 e))
           | Inr estimated \<Rightarrow> map_option Inr (sorted_by get_price_for_sorting estimated)))
   \<and> (\<forall>results. g query country = Inr results \<longrightarrow>
         routes_search_products g country query =
           orchestration_pipeline
             [GoogleCustomSearchScraper (GoogleCustomSearchScraper_search g)] country query)"
  by (simp add: routes_unfolded orchestration_pipeline_def google_only_search)

lemma py_float_10: "py_float ''10'' = Some (Fin 10)" by code_simp
lemma py_float_20: "py_float ''20'' = Some (Fin 20)" by code_simp

lemma py_float_199: "py_float ''199'' = Some (Fin 199)" by code_simp

lemma key_ex_product:
  "get_price_for_sorting (ex_product src nm p) =
     (case py_float (filter (\<lambda>c. c \<noteq> CHR '','') p) of Some f \<Rightarrow> f | None \<Rightarrow> Fin 0)"
  by (simp add: get_price_for_sorting_def ex_product_def dict_get_def)

lemma estimate_ex_product:
  "p \<noteq> [] \<Longrightarrow> estimate_price (ex_product src nm p) query = Inr (ex_product src nm p)"
  by (simp add: estimate_price_def ex_product_def dict_get_def py_lower_def)

lemma ex_route:
  "routes_search_products ex_google ''BR'' ''garmin watch''
     = Some (Inr [ex_product ''shop.example'' ''Garmin Instinct'' ''20''])"
  by (simp add: routes_unfolded ex_google_def estimate_ex_product sorted_by_def)

lemma ex_two_selected: "select_scrapers ex_two_sources ''BR'' = ex_two_sources"
proof -
  have "\<not> lists_country (ex_two_sources ! 0) ''BR''" "\<not> lists_country (ex_two_sources ! 1) ''BR''"
    by code_simp+
  then show ?thesis
    by (simp add: select_scrapers_def get_relevant_scrapers_def ex_two_sources_def
          AmazonScraper_def GoogleCustomSearchScraper_def)
qed

lemma ex_pipeline:
  "orchestration_pipeline ex_two_sources ''BR'' ''garmin watch''
     = Some (Inr [ex_product ''amazon.com'' ''Garmin Forerunner 55'' ''10'',
                  ex_product ''shop.example'' ''Garmin Instinct'' ''20''])"
proof -
  have "ScraperManager_search_products ex_two_sources ''BR'' ''garmin watch''
     = Inr [ex_product ''amazon.com'' ''Garmin Forerunner 55'' ''10'',
            ex_product ''shop.example'' ''Garmin Instinct'' ''20'']"
    by (simp add: search_products_concat ex_two_selected)
       (simp add: ex_two_sources_def successful_results_def AmazonScraper_def
          GoogleCustomSearchScraper_def GoogleCustomSearchScraper_search_def ex_google_def)
  then show ?thesis
    by (simp add: orchestration_pipeline_def estimate_ex_product sorted_by_def key_ex_product
          py_float_10 py_float_20)
qed

text \<open>
  Claim C1 as stated fails: with an Amazon adapter and the Google adapter loaded, the
  orchestration pipeline returns both records and the endpoint only Google's.
\<close>

theorem routes_bypass_orchestrator_counterexample:
  "routes_search_products ex_google ''BR'' ''garmin watch''
     \<noteq> orchestration_pipeline ex_two_sources ''BR'' ''garmin watch''
   \<and> routes_search_products ex_google ''BR'' ''garmin watch''
       = Some (Inr [ex_product ''shop.example'' ''Garmin Instinct'' ''20''])
   \<and> orchestration_pipeline ex_two_sources ''BR'' ''garmin watch''
       = Some (Inr [ex_product ''amazon.com'' ''Garmin Forerunner 55'' ''10'',
                    ex_product ''shop.example'' ''Garmin Instinct'' ''20''])"
  by (simp add: ex_route ex_pipeline)

lemma estimate_garmin:
  "estimate_price (ex_product ''shop.example'' ''Garmin Instinct'' []) ''garmin watch''
     = Inr (dict_set (dict_set (ex_product ''shop.example'' ''Garmin Instinct'' [])
                        ''price'' (PStr ''299''))
              ''additionalInfo'' (PDict [(''priceEstimated'', PBool True)]))"
  by code_simp

lemma key_garmin:
  "get_price_for_sorting
     (dict_set (dict_set (ex_product ''shop.example'' ''Garmin Instinct'' [])
                  ''price'' (PStr ''299''))
        ''additionalInfo'' (PDict [(''priceEstimated'', PBool True)])) = Fin 299"
  by (simp add: get_price_for_sorting_def ex_product_def dict_get_def dict_set_def py_float_299)

lemma ex_garmin_pipeline:
  "(case map_estimate
           [ex_product ''shop.example'' ''Garmin Instinct'' [],
            ex_product ''amazon.com'' ''Garmin Forerunner 55'' ''199''] ''garmin watch'' of
      Inl e \<Rightarrow> Some (Inl (HTTPException 500 e))
    | Inr estimated \<Rightarrow> map_option Inr (sorted_by get_price_for_sorting estimated))
   = Some (Inr [ex_product ''amazon.com'' ''Garmin Forerunner 55'' ''199'',
                dict_set (dict_set (ex_product ''shop.example'' ''Garmin Instinct'' [])
                            ''price'' (PStr ''299''))
                  ''additionalInfo'' (PDict [(''priceEstimated'', PBool True)])])"
  by (simp add: estimate_garmin estimate_ex_product sorted_by_def key_garmin key_ex_product
        py_float_199 py_float_299)

text \<open>
  Claim C1 at the end-to-end scenario of the specification, with both records coming
  from the Google source (and 199 for the price 199.99): the Garmin Instinct has no price
  and is estimated at 299, and the ranker moves the Garmin Forerunner 55 in front of it.
\<close>

theorem routes_search_products_single_source_witness:
  "routes_search_products ex_garmin ''US'' ''garmin watch''
     = Some (Inr [ex_product ''amazon.com'' ''Garmin Forerunner 55'' ''199'',
                  dict_set (dict_set (ex_product ''shop.example'' ''Garmin Instinct'' [])
                              ''price'' (PStr ''299''))
                    ''additionalInfo'' (PDict [(''priceEstimated'', PBool True)])])
   \<and> orchestration_pipeline
       [GoogleCustomSearchScraper (GoogleCustomSearchScraper_search ex_garmin)] ''US'' ''garmin watch''
     = routes_search_products ex_garmin ''US'' ''garmin watch''"
proof -
  have g: "ex_garmin ''garmin watch'' ''US'' =
             Inr [ex_product ''shop.example'' ''Garmin Instinct'' [],
                  ex_product ''amazon.com'' ''Garmin Forerunner 55'' ''199'']"
    by (simp add: ex_garmin_def)
  have r: "routes_search_products ex_garmin ''US'' ''garmin watch''
     = Some (Inr [ex_product ''amazon.com'' ''Garmin Forerunner 55'' ''199'',
                  dict_set (dict_set (ex_product ''shop.example'' ''Garmin Instinct'' [])
                              ''price'' (PStr ''299''))
                    ''additionalInfo'' (PDict [(''priceEstimated'', PBool True)])])"
    using ex_garmin_pipeline by (simp add: routes_unfolded g)
  have e: "routes_search_products ex_garmin ''US'' ''garmin watch'' =
             orchestration_pipeline
               [GoogleCustomSearchScraper (GoogleCustomSearchScraper_search ex_garmin)]
               ''US'' ''garmin watch''"
    using routes_search_products_single_source[of ex_garmin "''US''" "''garmin watch''"] g
    by blast
  show ?thesis
    by (rule conjI[OF r e[symmetric]])
qed

section \<open>Price cleaning\<close>




















end
